theory Spec2Isabelle
  imports Complex_Main "HOL-Library.AList" "HOL-Library.Char_ord" "HOL-Library.List_Lexorder"
    "HOL-Library.Log_Nat"
begin

section \<open>vsdx-shrinker: a model of \<^verbatim>\<open>src/vsdx_shrinker/core.py\<close>\<close>

text \<open>
  The development follows \<^verbatim>\<open>core.py\<close> function by function. Python strings are
  \<^typ>\<open>string\<close>; a character is a code point below 256, which is enough for every
  literal the code compares against. Python sets are HOL sets, dictionaries are
  association lists updated with \<^const>\<open>AList.update\<close> (insertion order kept, a later
  assignment to the same key replaces the value), and every exception the code can raise
  is a value of the type \<open>error\<close> below.
\<close>

subsection \<open>Constants\<close>

definition VISIO_NS :: string where
  "VISIO_NS = ''http://schemas.microsoft.com/office/visio/2012/main''"

definition REL_NS :: string where
  "REL_NS = ''http://schemas.openxmlformats.org/officeDocument/2006/relationships''"

definition PKG_REL_NS :: string where
  "PKG_REL_NS = ''http://schemas.openxmlformats.org/package/2006/relationships''"

text \<open>The tags and the attribute key that the path expressions of the code expand to:
  \<^verbatim>\<open>v:Master\<close>, \<^verbatim>\<open>v:Rel\<close>, \<^verbatim>\<open>{PKG_REL_NS}Relationship\<close> and \<^verbatim>\<open>{REL_NS}id\<close>.\<close>

definition master_tag :: string where
  "master_tag = ''{'' @ VISIO_NS @ ''}Master''"

definition rel_tag :: string where
  "rel_tag = ''{'' @ VISIO_NS @ ''}Rel''"

definition relationship_tag :: string where
  "relationship_tag = ''{'' @ PKG_REL_NS @ ''}Relationship''"

definition rel_id_full_ns :: string where
  "rel_id_full_ns = ''{'' @ REL_NS @ ''}id''"

subsection \<open>Errors\<close>

text \<open>One item of the list \<^verbatim>\<open>errors\<close> that \<^verbatim>\<open>_validate_vsdx_structure\<close> accumulates:
  the constructor stands for the fixed text of the message, its arguments for the values
  formatted into it.\<close>

datatype verror =
    MissingRelationshipsFile
  | MissingPagesDirectory
  | UnexpectedNamespace string
  | MissingRequiredAttributes "string set"
  | MissingRelChild
  | RelUnexpectedIdNamespace string
  | RelMissingId
  | UnexpectedRelationshipsNamespace string
  | NonExistentRelationship string string

datatype error =
    FileNotFoundError
  | NotVsdxValueError
  | BadZipFile
  | InvalidXml string
  | ValidationFailed "verror list"
  | ParseError
  | UnicodeDecodeError
  | IsADirectoryError
  | RemoveValueError
  | SameFileError


subsection \<open>XML elements\<close>

text \<open>An \<^verbatim>\<open>ElementTree\<close> element: its tag in \<^verbatim>\<open>{namespace}local\<close> form, its attribute
  dictionary in document order and its children. Text and tail are never read by the code
  and are left out. A parsed file is either malformed or a document with a root.\<close>

datatype element =
  Element (tag: string) (attrib: "(string \<times> string) list") (children: "element list")

datatype xml_file = Malformed | Doc element

text \<open>\<^verbatim>\<open>element.get(key, default)\<close>.\<close>

definition get :: "element \<Rightarrow> string \<Rightarrow> string \<Rightarrow> string" where
  "get e k d = (case map_of (attrib e) k of None \<Rightarrow> d | Some v \<Rightarrow> v)"

text \<open>An element object is identified by its position: the list of child indices that
  leads to it from the root. \<open>iter_paths e\<close> lists the proper descendants of \<open>e\<close> in
  document order, each with its position.\<close>

fun iter_paths :: "element \<Rightarrow> (nat list \<times> element) list"
  and iter_paths_from :: "nat \<Rightarrow> element list \<Rightarrow> (nat list \<times> element) list" where
  "iter_paths (Element t a cs) = iter_paths_from 0 cs"
| "iter_paths_from i [] = []"
| "iter_paths_from i (c # cs) =
     ([i], c) # map (\<lambda>(p, e). (i # p, e)) (iter_paths c) @ iter_paths_from (Suc i) cs"

text \<open>\<^verbatim>\<open>e.findall('.//t')\<close>: every proper descendant with tag \<open>t\<close>, in document order;
  \<^verbatim>\<open>e.find('.//t')\<close>: the first of them, or \<^verbatim>\<open>None\<close>.\<close>

definition findall :: "element \<Rightarrow> string \<Rightarrow> (nat list \<times> element) list" where
  "findall e t = filter (\<lambda>(p, x). tag x = t) (iter_paths e)"

definition find_first :: "element \<Rightarrow> string \<Rightarrow> element option" where
  "find_first e t = (case findall e t of [] \<Rightarrow> None | (p, x) # r \<Rightarrow> Some x)"

text \<open>\<^verbatim>\<open>_get_namespace\<close>: \<^verbatim>\<open>tag.split('}')[0].strip('{')\<close> when the tag contains a
  closing brace.\<close>

definition strip_lbrace :: "string \<Rightarrow> string" where
  "strip_lbrace s =
     rev (dropWhile (\<lambda>c. c = CHR ''{'') (rev (dropWhile (\<lambda>c. c = CHR ''{'') s)))"

definition get_namespace :: "element \<Rightarrow> string" where
  "get_namespace e =
     (if CHR ''}'' \<in> set (tag e)
      then strip_lbrace (takeWhile (\<lambda>c. c \<noteq> CHR ''}'') (tag e))
      else [])"

text \<open>\<^verbatim>\<open>_get_rel_id\<close>: \<^verbatim>\<open>a or b\<close> is \<open>a\<close> unless \<open>a\<close> is the empty string.\<close>

definition get_rel_id :: "element option \<Rightarrow> string" where
  "get_rel_id r =
     (case r of
        None \<Rightarrow> []
      | Some rel \<Rightarrow>
          (let v = get rel rel_id_full_ns [] in
           if v \<noteq> [] then v else get rel ''r:id'' []))"

subsection \<open>Regular expressions of the reference resolver\<close>

text \<open>\<^verbatim>\<open>\d\<close> and \<^verbatim>\<open>\w\<close> of Python's \<^verbatim>\<open>re\<close> on text, for code points below 256.\<close>

definition is_digit :: "char \<Rightarrow> bool" where
  "is_digit c = (let n = (of_char c :: nat) in 48 \<le> n \<and> n \<le> 57)"

definition is_word :: "char \<Rightarrow> bool" where
  "is_word c =
     (let n = (of_char c :: nat) in
        (48 \<le> n \<and> n \<le> 57) \<or> (65 \<le> n \<and> n \<le> 90) \<or> n = 95 \<or> (97 \<le> n \<and> n \<le> 122)
        \<or> n = 170 \<or> n = 178 \<or> n = 179 \<or> n = 181 \<or> n = 185 \<or> n = 186
        \<or> (188 \<le> n \<and> n \<le> 190) \<or> (192 \<le> n \<and> n \<le> 214) \<or> (216 \<le> n \<and> n \<le> 246)
        \<or> 248 \<le> n)"

text \<open>\<open>strip_literal l s\<close>: the rest of \<open>s\<close> after the literal \<open>l\<close>, when \<open>s\<close> starts
  with it.\<close>

fun strip_literal :: "string \<Rightarrow> string \<Rightarrow> string option" where
  "strip_literal [] s = Some s"
| "strip_literal (a # l) [] = None"
| "strip_literal (a # l) (b # s) = (if a = b then strip_literal l s else None)"

text \<open>One attempt to match \<^verbatim>\<open>USE\("([^"]+)"\)\<close> at the start of \<open>s\<close>: the group and the
  text after the match. The greedy \<^verbatim>\<open>[^"]+\<close> takes every character up to the next double
  quote; giving characters back cannot help, since the next pattern character is the
  quote itself.\<close>

definition use_match :: "string \<Rightarrow> (string \<times> string) option" where
  "use_match s =
     (case strip_literal ''USE(\"'' s of
        None \<Rightarrow> None
      | Some r \<Rightarrow>
          (let g = takeWhile (\<lambda>c. c \<noteq> CHR ''\"'') r in
           if g = [] then None
           else (case strip_literal ''\")'' (dropWhile (\<lambda>c. c \<noteq> CHR ''\"'') r) of
                   None \<Rightarrow> None
                 | Some rest \<Rightarrow> Some (g, rest))))"

definition is_quote :: "char \<Rightarrow> bool" where
  "is_quote c = (c = CHR ''\"'' \<or> c = CHR 0x27)"

text \<open>One attempt to match \<^verbatim>\<open>Master=["'](\d+)["']\<close> at the start of \<open>s\<close> (the word
  boundary is checked by the caller, which knows the preceding character).\<close>

definition master_attr_match :: "string \<Rightarrow> (string \<times> string) option" where
  "master_attr_match s =
     (case strip_literal ''Master='' s of
        None \<Rightarrow> None
      | Some r \<Rightarrow>
          (case r of
             [] \<Rightarrow> None
           | q # r' \<Rightarrow>
               if \<not> is_quote q then None
               else (let g = takeWhile is_digit r' in
                     if g = [] then None
                     else (case dropWhile is_digit r' of
                             [] \<Rightarrow> None
                           | q' # rest \<Rightarrow> if is_quote q' then Some (g, rest) else None))))"

lemma strip_literal_length: "strip_literal l s = Some r \<Longrightarrow> length r + length l = length s"
  by (induction l s rule: strip_literal.induct) (auto split: if_splits)

lemma use_match_shorter: "use_match s = Some (g, r) \<Longrightarrow> length r < length s"
proof -
  assume a: "use_match s = Some (g, r)"
  then obtain r1 where r1: "strip_literal ''USE(\"'' s = Some r1"
    by (auto simp: use_match_def split: option.splits)
  with a obtain r2 where r2: "strip_literal ''\")'' (dropWhile (\<lambda>c. c \<noteq> CHR ''\"'') r1) = Some r"
    by (auto simp: use_match_def Let_def split: option.splits if_splits)
  have "length (dropWhile (\<lambda>c. c \<noteq> CHR ''\"'') r1) \<le> length r1"
    by (rule length_dropWhile_le)
  with strip_literal_length [OF r1] strip_literal_length [OF r2] show ?thesis by simp
qed

lemma master_attr_match_shorter: "master_attr_match s = Some (g, r) \<Longrightarrow> length r < length s"
proof -
  assume a: "master_attr_match s = Some (g, r)"
  then obtain r1 where r1: "strip_literal ''Master='' s = Some r1"
    by (auto simp: master_attr_match_def split: option.splits)
  with a obtain q r' where q: "r1 = q # r'"
    by (cases r1) (auto simp: master_attr_match_def)
  with a r1 obtain q' where "dropWhile is_digit r' = q' # r"
    by (auto simp: master_attr_match_def Let_def split: list.splits if_splits)
  then have "length r < length (dropWhile is_digit r')" by simp
  also have "\<dots> \<le> length r'" by (rule length_dropWhile_le)
  finally show ?thesis using strip_literal_length [OF r1] q by simp
qed

text \<open>\<^verbatim>\<open>use_pattern.findall(content)\<close>: scan from the left; after a match continue behind
  it, otherwise move one character on.\<close>

function use_findall :: "string \<Rightarrow> string list" where
  "use_findall [] = []"
| "use_findall (c # s) =
     (case use_match (c # s) of
        Some (g, rest) \<Rightarrow> g # use_findall rest
      | None \<Rightarrow> use_findall s)"
  by pat_completeness auto
termination
  by (relation "measure length") (auto dest: use_match_shorter)

text \<open>\<^verbatim>\<open>master_attr_pattern.findall(content)\<close>. The first argument tells whether the
  character before the current position is a word character; \<^verbatim>\<open>\b\<close> in front of \<open>M\<close>
  holds exactly when it is not (or there is none). A match ends with a quote, which is
  not a word character.\<close>

function master_attr_scan :: "bool \<Rightarrow> string \<Rightarrow> string list" where
  "master_attr_scan w [] = []"
| "master_attr_scan w (c # s) =
     (case (if w then None else master_attr_match (c # s)) of
        Some (g, rest) \<Rightarrow> g # master_attr_scan False rest
      | None \<Rightarrow> master_attr_scan (is_word c) s)"
  by pat_completeness auto
termination
  by (relation "measure (\<lambda>(w, s). length s)")
     (auto dest: master_attr_match_shorter split: if_splits)

definition master_attr_findall :: "string \<Rightarrow> string list" where
  "master_attr_findall content = master_attr_scan False content"

subsection \<open>The extracted archive\<close>

text \<open>What the code reads and writes below the extraction root, at the places fixed by
  \<^verbatim>\<open>_make_vsdx_paths\<close>:
  \<^item> \<open>masters_xml\<close>: \<^verbatim>\<open>visio/masters/masters.xml\<close>, if it exists;
  \<^item> \<open>rels_path\<close>: \<^verbatim>\<open>visio/masters/_rels/masters.xml.rels\<close>, if it exists;
  \<^item> \<open>masters_dir\<close>: the entries directly in \<^verbatim>\<open>visio/masters\<close>, in the order the
    directory lists them, each a regular file or a directory, with the size that
    \<^verbatim>\<open>stat\<close> reports;
  \<^item> \<open>pages_dir\<close>: \<^verbatim>\<open>visio/pages\<close>, if it exists, with \<^verbatim>\<open>_rels/pages.xml.rels\<close> and the
    regular files directly in it.
  The code also joins the \<^verbatim>\<open>Target\<close> of a relationship to one of the two directories
  and asks the operating system what is there. A target that names an entry of the
  directory is found in the listing; for any other target (a path with several parts,
  \<^verbatim>\<open>..\<close>, an absolute path, the directory itself) the answer of the operating system is
  given by \<open>masters_other\<close> and \<open>pages_other\<close>.\<close>

datatype text_file = Undecodable | Text string

datatype page_file = PageFile text_file | PageDir

datatype entry = File nat | Dir nat

fun entry_size :: "entry \<Rightarrow> nat" where
  "entry_size (File sz) = sz"
| "entry_size (Dir sz) = sz"


record pages =
  pages_rels :: "xml_file option"
  page_files :: "(string \<times> text_file) list"
  pages_other :: "string \<Rightarrow> page_file option"

record extracted =
  masters_xml :: "xml_file option"
  rels_path :: "xml_file option"
  masters_dir :: "(string \<times> entry) list"
  masters_other :: "string \<Rightarrow> nat option"
  pages_dir :: "pages option"

text \<open>\<^verbatim>\<open>directory / target\<close>: \<^verbatim>\<open>pathlib\<close> splits the target at the slashes and drops the
  empty parts and the parts \<^verbatim>\<open>.\<close>; an absolute target replaces the directory. \<open>plain_name\<close>
  gives the name when the joined path is an entry of the directory itself.\<close>

fun split_at :: "char \<Rightarrow> string \<Rightarrow> string \<Rightarrow> string list" where
  "split_at sep acc [] = [rev acc]"
| "split_at sep acc (c # s) =
     (if c = sep then rev acc # split_at sep [] s else split_at sep (c # acc) s)"

definition target_parts :: "string \<Rightarrow> string list" where
  "target_parts target = filter (\<lambda>part. part \<noteq> [] \<and> part \<noteq> ''.'') (split_at CHR ''/'' [] target)"

definition plain_name :: "string \<Rightarrow> string option" where
  "plain_name target =
     (if target \<noteq> [] \<and> hd target = CHR ''/'' then None
      else (case target_parts target of
              [n] \<Rightarrow> if n = ''..'' then None else Some n
            | _ \<Rightarrow> None))"

text \<open>\<^verbatim>\<open>(pages_dir / target)\<close>, when it exists, and \<^verbatim>\<open>(masters_dir / target).stat().st_size\<close>,
  when it exists.\<close>

definition page_at :: "pages \<Rightarrow> string \<Rightarrow> page_file option" where
  "page_at pd target =
     (case (case plain_name target of None \<Rightarrow> None | Some n \<Rightarrow> map_of (page_files pd) n) of
        Some f \<Rightarrow> Some (PageFile f)
      | None \<Rightarrow> pages_other pd target)"

definition stat_target :: "extracted \<Rightarrow> string \<Rightarrow> nat option" where
  "stat_target t target =
     (case plain_name target of
        Some n \<Rightarrow> map_option entry_size (map_of (masters_dir t) n)
      | None \<Rightarrow> masters_other t target)"

text \<open>\<^verbatim>\<open>Path.glob\<close> with a pattern \<^verbatim>\<open>pre*suf\<close>, on a file name.\<close>

definition glob_match :: "string \<Rightarrow> string \<Rightarrow> string \<Rightarrow> bool" where
  "glob_match pre suf n =
     (length pre + length suf \<le> length n \<and> take (length pre) n = pre
      \<and> drop (length n - length suf) n = suf)"

text \<open>\<^verbatim>\<open>_read_xml_file\<close>: the second attempt, with the codec \<^verbatim>\<open>utf-8-sig\<close>, decodes
  nothing that \<^verbatim>\<open>utf-8\<close> rejects, so an undecodable file raises; so does a directory.\<close>

definition read_xml_file :: "page_file \<Rightarrow> error + string" where
  "read_xml_file f =
     (case f of
        PageDir \<Rightarrow> Inl IsADirectoryError
      | PageFile Undecodable \<Rightarrow> Inl UnicodeDecodeError
      | PageFile (Text s) \<Rightarrow> Inr s)"

text \<open>\<^verbatim>\<open>_parse_xml_file\<close>, with the name of the file for the message.\<close>

definition parse_xml_file :: "string \<Rightarrow> xml_file \<Rightarrow> error + element" where
  "parse_xml_file n f = (case f of Malformed \<Rightarrow> Inl (InvalidXml n) | Doc xroot \<Rightarrow> Inr xroot)"

text \<open>\<^verbatim>\<open>_get_page_files\<close>. First the targets of \<^verbatim>\<open>pages.xml.rels\<close> that exist, each
  with what is found there; a malformed relationship file is skipped. When that gives
  nothing, the glob \<^verbatim>\<open>page*.xml\<close>.\<close>

definition pages_from_rels :: "pages \<Rightarrow> (string \<times> page_file) list" where
  "pages_from_rels pd =
     (case pages_rels pd of
        None \<Rightarrow> []
      | Some f \<Rightarrow>
          (case parse_xml_file ''pages.xml.rels'' f of
             Inl e \<Rightarrow> []
           | Inr xroot \<Rightarrow>
               concat (map (\<lambda>(p, rel).
                 let target = get rel ''Target'' [] in
                 if target \<noteq> []
                 then (case page_at pd target of
                         None \<Rightarrow> []
                       | Some pf \<Rightarrow> [(target, pf)])
                 else []) (findall xroot relationship_tag))))"

definition pages_from_glob :: "pages \<Rightarrow> (string \<times> page_file) list" where
  "pages_from_glob pd =
     map (\<lambda>(n, f). (n, PageFile f)) (filter (\<lambda>(n, f). glob_match ''page'' ''.xml'' n) (page_files pd))"

definition get_page_files :: "pages \<Rightarrow> (string \<times> page_file) list" where
  "get_page_files pd =
     (if pages_from_rels pd = [] then pages_from_glob pd else pages_from_rels pd)"

subsection \<open>Validation\<close>

text \<open>The five numbered steps of \<^verbatim>\<open>_validate_vsdx_structure\<close>, each giving the errors
  it appends.\<close>

definition required_files_errors :: "extracted \<Rightarrow> verror list" where
  "required_files_errors t =
     (if rels_path t = None then [MissingRelationshipsFile] else [])
     @ (if pages_dir t = None then [MissingPagesDirectory] else [])"

definition namespace_errors :: "element \<Rightarrow> verror list" where
  "namespace_errors xroot =
     (let ns = get_namespace xroot in
      if ns \<noteq> [] \<and> ns \<noteq> VISIO_NS then [UnexpectedNamespace ns] else [])"

definition ends_with :: "string \<Rightarrow> string \<Rightarrow> bool" where
  "ends_with s suf = (length suf \<le> length s \<and> drop (length s - length suf) s = suf)"

definition sample_errors :: "(nat list \<times> element) list \<Rightarrow> verror list" where
  "sample_errors masters =
     (case masters of
        [] \<Rightarrow> []
      | (p, sample) # ms \<Rightarrow>
          (let missing = {''ID'', ''NameU''} - set (map fst (attrib sample)) in
           if missing \<noteq> {} then [MissingRequiredAttributes missing] else [])
          @ (case find_first sample rel_tag of
               None \<Rightarrow> [MissingRelChild]
             | Some rel \<Rightarrow>
                 (let keys = map fst (attrib rel);
                      has_full_ns = (rel_id_full_ns \<in> set keys);
                      has_prefixed = (''r:id'' \<in> set keys) in
                  if \<not> has_full_ns \<and> \<not> has_prefixed
                  then (case filter (\<lambda>k. ends_with k ''}id'' \<or> k = ''id'') keys of
                          [] \<Rightarrow> [RelMissingId]
                        | k # ks \<Rightarrow> [RelUnexpectedIdNamespace k])
                  else [])))"

definition rels_namespace_errors :: "element \<Rightarrow> verror list" where
  "rels_namespace_errors rels_root =
     (let rels_ns = get_namespace rels_root in
      if rels_ns \<noteq> [] \<and> rels_ns \<noteq> PKG_REL_NS
      then [UnexpectedRelationshipsNamespace rels_ns] else [])"

definition rels_ids_of :: "element \<Rightarrow> string set" where
  "rels_ids_of rels_root =
     set (filter (\<lambda>i. i \<noteq> []) (map (\<lambda>(p, rel). get rel ''Id'' []) (findall rels_root relationship_tag)))"

definition master_name :: "element \<Rightarrow> string" where
  "master_name master = get master ''NameU'' (get master ''ID'' ''unknown'')"

definition dangling :: "string set \<Rightarrow> element \<Rightarrow> bool" where
  "dangling rels_ids master =
     (case find_first master rel_tag of
        None \<Rightarrow> False
      | Some rel \<Rightarrow> get_rel_id (Some rel) \<noteq> [] \<and> get_rel_id (Some rel) \<notin> rels_ids)"

definition integrity_errors :: "(nat list \<times> element) list \<Rightarrow> string set \<Rightarrow> verror list" where
  "integrity_errors masters rels_ids =
     (if masters \<noteq> [] \<and> rels_ids \<noteq> {}
      then map (\<lambda>master.
             NonExistentRelationship (master_name master)
               (get_rel_id (find_first master rel_tag)))
           (filter (dangling rels_ids) (map snd masters))
      else [])"

text \<open>\<^verbatim>\<open>_validate_vsdx_structure\<close>. The two calls of \<^verbatim>\<open>_parse_xml_file\<close> raise at once;
  everything else is collected and raised at the end.\<close>

definition validate_vsdx_structure :: "extracted \<Rightarrow> error + unit" where
  "validate_vsdx_structure t =
     (case masters_xml t of
        None \<Rightarrow> Inr ()
      | Some mf \<Rightarrow>
          (case parse_xml_file ''masters.xml'' mf of
             Inl e \<Rightarrow> Inl e
           | Inr xroot \<Rightarrow>
               (let errors1 = required_files_errors t @ namespace_errors xroot;
                    masters = findall xroot master_tag;
                    errors3 = errors1 @ sample_errors masters in
                (case (case rels_path t of
                         None \<Rightarrow> Inr ([], {})
                       | Some rf \<Rightarrow>
                           (case parse_xml_file ''masters.xml.rels'' rf of
                              Inl e \<Rightarrow> Inl e
                            | Inr rels_root \<Rightarrow>
                                Inr (rels_namespace_errors rels_root, rels_ids_of rels_root))) of
                   Inl e \<Rightarrow> Inl e
                 | Inr (errors4, rels_ids) \<Rightarrow>
                     (let errors = errors3 @ errors4 @ integrity_errors masters rels_ids in
                      if errors \<noteq> [] then Inl (ValidationFailed errors) else Inr ())))))"

subsection \<open>Catalog, relationship index and reference resolver\<close>

text \<open>An entry of \<^verbatim>\<open>masters_info\<close>; \<open>info_element\<close> is the position of the element
  object stored under \<^verbatim>\<open>'element'\<close>.\<close>

record master_info =
  info_id :: string
  info_rel_id :: string
  info_element :: "nat list"

text \<open>\<^verbatim>\<open>_parse_masters_xml\<close> parses with \<^verbatim>\<open>ET.parse\<close> directly, so a malformed file
  raises \<^verbatim>\<open>ParseError\<close> here.\<close>

definition masters_info_of :: "element \<Rightarrow> (string \<times> master_info) list" where
  "masters_info_of xroot =
     foldl (\<lambda>d (p, master).
        let name = get master ''NameU'' [] in
        if name \<noteq> []
        then AList.update name
               \<lparr>info_id = get master ''ID'' [],
                info_rel_id = get_rel_id (find_first master rel_tag),
                info_element = p\<rparr> d
        else d) [] (findall xroot master_tag)"

definition parse_masters_xml :: "xml_file \<Rightarrow> error + element \<times> (string \<times> master_info) list" where
  "parse_masters_xml f =
     (case f of Malformed \<Rightarrow> Inl ParseError | Doc xroot \<Rightarrow> Inr (xroot, masters_info_of xroot))"

definition rels_info_of :: "element \<Rightarrow> (string \<times> string) list" where
  "rels_info_of xroot =
     foldl (\<lambda>d (p, rel).
        let rel_id = get rel ''Id'' []; target = get rel ''Target'' [] in
        if rel_id \<noteq> [] \<and> target \<noteq> [] then AList.update rel_id target d else d)
       [] (findall xroot relationship_tag)"

definition parse_rels_xml :: "xml_file \<Rightarrow> error + element \<times> (string \<times> string) list" where
  "parse_rels_xml f =
     (case f of Malformed \<Rightarrow> Inl ParseError | Doc xroot \<Rightarrow> Inr (xroot, rels_info_of xroot))"

text \<open>The dictionary comprehension \<^verbatim>\<open>{info['id']: name for name, info in ...}\<close>: of two
  names with the same id the later one stays.\<close>

definition id_to_name_of :: "(string \<times> master_info) list \<Rightarrow> (string \<times> string) list" where
  "id_to_name_of masters_info =
     foldl (\<lambda>d (name, info). AList.update (info_id info) name d) [] masters_info"

text \<open>The body of the loop over the page files in \<^verbatim>\<open>_find_used_masters\<close>, and the
  loop.\<close>

definition page_names :: "(string \<times> string) list \<Rightarrow> string \<Rightarrow> string set" where
  "page_names id_to_name content =
     set (use_findall content)
     \<union> set (List.map_filter (map_of id_to_name) (master_attr_findall content))"

fun scan_pages ::
  "(string \<times> string) list \<Rightarrow> (string \<times> page_file) list \<Rightarrow> string set \<Rightarrow> error + string set" where
  "scan_pages id_to_name [] used_names = Inr used_names"
| "scan_pages id_to_name ((n, pf) # pfs) used_names =
     (case read_xml_file pf of
        Inl e \<Rightarrow> Inl e
      | Inr content \<Rightarrow>
          scan_pages id_to_name pfs (used_names \<union> page_names id_to_name content))"

definition find_used_masters ::
  "pages \<Rightarrow> (string \<times> master_info) list \<Rightarrow> error + string set" where
  "find_used_masters pd masters_info =
     scan_pages (id_to_name_of masters_info) (get_page_files pd) {}"

subsection \<open>Paths and the file system\<close>

text \<open>A \<^verbatim>\<open>Path\<close> is the list of its parts as it is spelled, an absolute path starting with
  the part \<^verbatim>\<open>/\<close>; two paths are equal when their parts are. The file that a path names is
  found from the current directory of the process: a relative path is taken from there,
  and \<^verbatim>\<open>..\<close> leads to the parent directory (links are not modelled). So two spellings
  can name the same file. The disk holds regular files at the locations so found, and
  every location can be written; a file has a size and, when it is a ZIP archive, the
  tree that \<^verbatim>\<open>extractall\<close> produces from it.\<close>

type_synonym path = "string list"

record vsdx_file =
  st_size :: nat
  archive :: "extracted option"

record fs =
  cwd :: path
  files :: "path \<Rightarrow> vsdx_file option"

fun parent_steps :: "path \<Rightarrow> path \<Rightarrow> path" where
  "parent_steps acc [] = rev acc"
| "parent_steps acc (c # cs) =
     (if c = ''..'' then parent_steps (tl acc) cs else parent_steps (c # acc) cs)"

definition from_root :: "path \<Rightarrow> path" where
  "from_root p = (case p of [] \<Rightarrow> [] | c # cs \<Rightarrow> if c = ''/'' then cs else c # cs)"

definition is_absolute :: "path \<Rightarrow> bool" where
  "is_absolute p = (case p of [] \<Rightarrow> False | c # cs \<Rightarrow> c = ''/'')"

definition locate :: "path \<Rightarrow> path \<Rightarrow> path" where
  "locate wd p =
     parent_steps [] (if is_absolute p then from_root p else from_root wd @ p)"

definition file_at :: "fs \<Rightarrow> path \<Rightarrow> vsdx_file option" where
  "file_at d p = files d (locate (cwd d) p)"


definition path_name :: "path \<Rightarrow> string" where
  "path_name p = (if p = [] \<or> p = [''/''] then [] else last p)"

text \<open>\<^verbatim>\<open>Path.suffix\<close>: from the last dot of the name on, unless that dot is the first or
  the last character.\<close>

definition path_suffix :: "path \<Rightarrow> string" where
  "path_suffix p =
     (let name = path_name p;
          ext = rev (takeWhile (\<lambda>c. c \<noteq> CHR ''.'') (rev name)) in
      if CHR ''.'' \<in> set name \<and> ext \<noteq> [] \<and> Suc (length ext) < length name
      then CHR ''.'' # ext else [])"


definition lower_char :: "char \<Rightarrow> char" where
  "lower_char c =
     (let n = (of_char c :: nat) in
      if (65 \<le> n \<and> n \<le> 90) \<or> (192 \<le> n \<and> n \<le> 214) \<or> (216 \<le> n \<and> n \<le> 222)
      then char_of (n + 32) else c)"

definition lower :: "string \<Rightarrow> string" where
  "lower s = map lower_char s"

text \<open>\<^verbatim>\<open>_validate_vsdx_path\<close>.\<close>

definition validate_vsdx_path :: "fs \<Rightarrow> path \<Rightarrow> error + path" where
  "validate_vsdx_path d p =
     (if file_at d p = None then Inl FileNotFoundError
      else if lower (path_suffix p) \<noteq> ''.vsdx'' then Inl NotVsdxValueError
      else Inr p)"


subsection \<open>Sizes\<close>

text \<open>A \<^verbatim>\<open>float\<close> is given by its exact value, a rational number. \<open>fl64\<close> rounds a
  rational to the nearest double (53 bits, a tie to the even neighbour), as the true
  division of two integers and the product of two floats do; the sizes that occur are
  far from the ends of the exponent range. \<^verbatim>\<open>round(x, n)\<close> rounds the exact value of \<open>x\<close>
  to \<open>n\<close> decimals, a tie to the even neighbour; of its result, the double nearest to
  that decimal number, the model keeps the decimal number.\<close>

definition round_half_even :: "rat \<Rightarrow> int" where
  "round_half_even q =
     (let f = \<lfloor>q\<rfloor>; d = q - of_int f in
      if d < 1 / 2 then f else if 1 / 2 < d then f + 1 else if even f then f else f + 1)"

definition fl64 :: "rat \<Rightarrow> rat" where
  "fl64 q =
     (if q = 0 then 0
      else (let a = \<bar>q\<bar>;
                k = bitlen (fst (quotient_of a)) - bitlen (snd (quotient_of a));
                e = (if 2 powi k \<le> a then k else k - 1);
                u = 2 powi (e - 52)
            in sgn q * of_int (round_half_even (a / u)) * u))"

definition py_round :: "rat \<Rightarrow> nat \<Rightarrow> rat" where
  "py_round x n = of_int (round_half_even (x * 10 ^ n)) / 10 ^ n"

definition bytes_to_mb :: "int \<Rightarrow> rat" where
  "bytes_to_mb size_bytes = py_round (fl64 (of_int size_bytes / (1024 * 1024))) 2"

text \<open>\<^verbatim>\<open>_calculate_unused_size\<close>; the sum over the set is the loop, whose order of
  iteration does not matter for a sum of integers.\<close>

definition target_size ::
  "(string \<times> master_info) list \<Rightarrow> (string \<times> string) list \<Rightarrow> extracted \<Rightarrow> string \<Rightarrow> nat" where
  "target_size masters_info rels_info t name =
     (let rel_id = (case map_of masters_info name of None \<Rightarrow> [] | Some info \<Rightarrow> info_rel_id info);
          target = (case map_of rels_info rel_id of None \<Rightarrow> [] | Some tg \<Rightarrow> tg) in
      if target \<noteq> []
      then (case stat_target t target of None \<Rightarrow> 0 | Some sz \<Rightarrow> sz)
      else 0)"

definition calculate_unused_size ::
  "string set \<Rightarrow> (string \<times> master_info) list \<Rightarrow> (string \<times> string) list \<Rightarrow> extracted \<Rightarrow> nat" where
  "calculate_unused_size unused masters_info rels_info t =
     (\<Sum>name\<in>unused. target_size masters_info rels_info t name)"

subsection \<open>Analysis\<close>

record analysis =
  total_masters :: nat
  used_masters :: nat
  unused_masters :: nat
  used_names :: "string list"
  unused_names :: "string list"
  potential_savings_mb :: rat

definition no_masters :: analysis where
  "no_masters =
     \<lparr>total_masters = 0, used_masters = 0, unused_masters = 0,
      used_names = [], unused_names = [], potential_savings_mb = 0\<rparr>"

text \<open>Opening a file that is missing raises (after validation the relationship file is
  there); the glob of a missing directory is empty.\<close>

definition open_xml :: "xml_file option \<Rightarrow> error + xml_file" where
  "open_xml f = (case f of None \<Rightarrow> Inl FileNotFoundError | Some x \<Rightarrow> Inr x)"

definition used_in :: "extracted \<Rightarrow> (string \<times> master_info) list \<Rightarrow> error + string set" where
  "used_in t masters_info =
     (case pages_dir t of
        None \<Rightarrow> Inr {}
      | Some pd \<Rightarrow> find_used_masters pd masters_info)"

text \<open>The body of \<^verbatim>\<open>analyze_vsdx\<close> on the extracted tree.\<close>

definition analyze_extracted :: "extracted \<Rightarrow> error + analysis" where
  "analyze_extracted t =
     (case masters_xml t of
        None \<Rightarrow> Inr no_masters
      | Some mf \<Rightarrow>
     (case validate_vsdx_structure t of Inl e \<Rightarrow> Inl e | Inr u \<Rightarrow>
     (case parse_masters_xml mf of Inl e \<Rightarrow> Inl e | Inr (masters_root, masters_info) \<Rightarrow>
     (case open_xml (rels_path t) of Inl e \<Rightarrow> Inl e | Inr rf \<Rightarrow>
     (case parse_rels_xml rf of Inl e \<Rightarrow> Inl e | Inr (rels_root, rels_info) \<Rightarrow>
     (case used_in t masters_info of Inl e \<Rightarrow> Inl e | Inr used \<Rightarrow>
        (let all_names = set (map fst masters_info);
             unused = all_names - used;
             unused_size = calculate_unused_size unused masters_info rels_info t in
         Inr \<lparr>total_masters = card all_names,
              used_masters = card (used \<inter> all_names),
              unused_masters = card unused,
              used_names = sorted_list_of_set (used \<inter> all_names),
              unused_names = sorted_list_of_set unused,
              potential_savings_mb = bytes_to_mb (int unused_size)\<rparr>)))))))"

definition extractall :: "fs \<Rightarrow> path \<Rightarrow> error + extracted" where
  "extractall d p =
     (case file_at d p of
        None \<Rightarrow> Inl FileNotFoundError
      | Some f \<Rightarrow> (case archive f of None \<Rightarrow> Inl BadZipFile | Some t \<Rightarrow> Inr t))"

definition analyze_vsdx :: "fs \<Rightarrow> path \<Rightarrow> error + analysis" where
  "analyze_vsdx d vsdx_path =
     (case validate_vsdx_path d vsdx_path of Inl e \<Rightarrow> Inl e | Inr p \<Rightarrow>
     (case extractall d p of Inl e \<Rightarrow> Inl e | Inr t \<Rightarrow> analyze_extracted t))"

subsection \<open>Pruning\<close>










subsection \<open>Side effects\<close>





subsection \<open>Shrinking\<close>











section \<open>Notions of the specification and example archives\<close>

text \<open>Catalog entries and index entries as Visio writes them, and archives made of them:
  a catalog, a relationship index, the entries of the masters directory and one page,
  \<^verbatim>\<open>page1.xml\<close>, found by the glob. The archive of the example scenario has the masters
  \<open>A\<close>, \<open>B\<close> and \<open>C\<close> and a page that uses \<open>A\<close> by name and \<open>B\<close> by identifier.\<close>

definition mk_master :: "string \<Rightarrow> string \<Rightarrow> string \<Rightarrow> element" where
  "mk_master i n r = Element master_tag [(''ID'', i), (''NameU'', n)] [Element rel_tag [(rel_id_full_ns, r)] []]"

definition mk_rel :: "string \<Rightarrow> string \<Rightarrow> element" where
  "mk_rel i t = Element relationship_tag [(''Id'', i), (''Target'', t)] []"

definition masters_doc :: "element list \<Rightarrow> element" where
  "masters_doc ms = Element (''{'' @ VISIO_NS @ ''}Masters'') [] ms"

definition rels_doc :: "element list \<Rightarrow> element" where
  "rels_doc rs = Element (''{'' @ PKG_REL_NS @ ''}Relationships'') [] rs"

definition nothing_else :: "string \<Rightarrow> 'a option" where
  "nothing_else target = None"

definition one_page :: "string \<Rightarrow> pages" where
  "one_page content =
     \<lparr>pages_rels = None, page_files = [(''page1.xml'', Text content)], pages_other = nothing_else\<rparr>"

definition mk_tree :: "element \<Rightarrow> element \<Rightarrow> (string \<times> entry) list \<Rightarrow> string \<Rightarrow> extracted" where
  "mk_tree catalog index entries content =
     \<lparr>masters_xml = Some (Doc catalog), rels_path = Some (Doc index), masters_dir = entries,
      masters_other = nothing_else, pages_dir = Some (one_page content)\<rparr>"

definition ex_masters :: element where
  "ex_masters = masters_doc [mk_master ''1'' ''A'' ''rId1'', mk_master ''2'' ''B'' ''rId2'', mk_master ''3'' ''C'' ''rId3'']"

definition ex_rels :: element where
  "ex_rels = rels_doc [mk_rel ''rId1'' ''master1.xml'', mk_rel ''rId2'' ''master2.xml'', mk_rel ''rId3'' ''master3.xml'']"

definition ex_page :: string where
  "ex_page = ''<Shape Master=\"2\"/> USE(\"A\")''"

definition ex_entries :: "(string \<times> entry) list" where
  "ex_entries = [(''masters.xml'', File 300), (''master1.xml'', File 1000), (''master2.xml'', File 2000),
                 (''master3.xml'', File 3000000)]"

definition ex_tree :: extracted where
  "ex_tree = mk_tree ex_masters ex_rels ex_entries ex_page"

text \<open>A disk with one archive, \<^verbatim>\<open>d.vsdx\<close> in the current directory \<^verbatim>\<open>/work\<close>.\<close>

definition disk_of :: "extracted \<Rightarrow> fs" where
  "disk_of t = \<lparr>cwd = [''/'', ''work''],
                files = [[''work'', ''d.vsdx''] \<mapsto> \<lparr>st_size = 5000, archive = Some t\<rparr>]\<rparr>"




text \<open>The tree inside the archive at a path.\<close>

definition output_tree :: "fs \<Rightarrow> path \<Rightarrow> extracted option" where
  "output_tree d p = (case file_at d p of None \<Rightarrow> None | Some f \<Rightarrow> archive f)"















section \<open>Properties\<close>

subsection \<open>Evaluation of the example\<close>

lemma tags_neq: "rel_tag \<noteq> master_tag" "master_tag \<noteq> rel_tag"
  by (simp_all add: rel_tag_def master_tag_def)

lemma get_mk_master:
  "get (mk_master i n r) ''NameU'' d = n" "get (mk_master i n r) ''ID'' d = i"
  "tag (mk_master i n r) = master_tag" "attrib (mk_master i n r) = [(''ID'', i), (''NameU'', n)]"
  by (simp_all add: mk_master_def get_def)

lemma get_mk_rel:
  "get (mk_rel i t) ''Id'' d = i" "get (mk_rel i t) ''Target'' d = t" "tag (mk_rel i t) = relationship_tag"
  "children (mk_rel i t) = []"
  by (simp_all add: mk_rel_def get_def)

lemma find_rel_mk_master: "find_first (mk_master i n r) rel_tag = Some (Element rel_tag [(rel_id_full_ns, r)] [])"
  by (simp add: find_first_def findall_def mk_master_def tags_neq)

lemma rel_id_plain: "r \<noteq> [] \<Longrightarrow> get_rel_id (Some (Element rel_tag [(rel_id_full_ns, r)] [])) = r"
  by (simp add: get_rel_id_def get_def)

lemma rel_id_mk_master: "r \<noteq> [] \<Longrightarrow> get_rel_id (find_first (mk_master i n r) rel_tag) = r"
  by (simp add: find_rel_mk_master get_rel_id_def get_def)

lemma iter_mk_master: "iter_paths (mk_master i n r) = [([0], Element rel_tag [(rel_id_full_ns, r)] [])]"
  by (simp add: mk_master_def)

lemma iter_mk_rel: "iter_paths (mk_rel i t) = []"
  by (simp add: mk_rel_def)

lemma ns_masters_doc: "get_namespace (masters_doc ms) = VISIO_NS"
  by (simp add: masters_doc_def get_namespace_def strip_lbrace_def VISIO_NS_def)

lemma ns_rels_doc: "get_namespace (rels_doc ms) = PKG_REL_NS"
  by (simp add: rels_doc_def get_namespace_def strip_lbrace_def PKG_REL_NS_def)

lemma mk_tree_fields:
  "masters_xml (mk_tree c i es content) = Some (Doc c)" "rels_path (mk_tree c i es content) = Some (Doc i)"
  "masters_dir (mk_tree c i es content) = es" "pages_dir (mk_tree c i es content) = Some (one_page content)"
  "masters_other (mk_tree c i es content) = nothing_else"
  by (simp_all add: mk_tree_def)

lemma ex_findall_masters: "findall ex_masters master_tag = [([0], mk_master ''1'' ''A'' ''rId1''), ([1], mk_master ''2'' ''B'' ''rId2''), ([2], mk_master ''3'' ''C'' ''rId3'')]"
  by (simp add: ex_masters_def masters_doc_def findall_def iter_mk_master get_mk_master tags_neq)

lemma ex_findall_rels: "findall ex_rels relationship_tag = [([0], mk_rel ''rId1'' ''master1.xml''), ([1], mk_rel ''rId2'' ''master2.xml''), ([2], mk_rel ''rId3'' ''master3.xml'')]"
  by (simp add: ex_rels_def rels_doc_def findall_def iter_mk_rel get_mk_rel)

lemma ex_masters_info: "masters_info_of ex_masters = [(''A'', \<lparr>info_id = ''1'', info_rel_id = ''rId1'', info_element = [0]\<rparr>),
   (''B'', \<lparr>info_id = ''2'', info_rel_id = ''rId2'', info_element = [1]\<rparr>), (''C'', \<lparr>info_id = ''3'', info_rel_id = ''rId3'', info_element = [2]\<rparr>)]"
  by (simp add: masters_info_of_def ex_findall_masters rel_id_mk_master get_mk_master)

lemma ex_rels_info: "rels_info_of ex_rels = [(''rId1'', ''master1.xml''), (''rId2'', ''master2.xml''), (''rId3'', ''master3.xml'')]"
  by (simp add: rels_info_of_def ex_findall_rels get_mk_rel)

lemma validate_vsdx_structure_Inr:
  assumes "masters_xml t = Some (Doc xroot)" "rels_path t = Some (Doc rr)" "pages_dir t \<noteq> None"
    "namespace_errors xroot = []" "sample_errors (findall xroot master_tag) = []"
    "rels_namespace_errors rr = []"
    "integrity_errors (findall xroot master_tag) (rels_ids_of rr) = []"
  shows "validate_vsdx_structure t = Inr ()"
  using assms by (simp add: validate_vsdx_structure_def parse_xml_file_def required_files_errors_def Let_def)

text \<open>Validation of an archive made with \<open>mk_tree\<close> from a catalog and an index in the
  right namespaces.\<close>

lemma validate_mk_tree:
  assumes "sample_errors (findall (masters_doc ms) master_tag) = []"
    "integrity_errors (findall (masters_doc ms) master_tag) (rels_ids_of (rels_doc rs)) = []"
  shows "validate_vsdx_structure (mk_tree (masters_doc ms) (rels_doc rs) es content) = Inr ()"
  by (rule validate_vsdx_structure_Inr [where xroot = "masters_doc ms" and rr = "rels_doc rs"])
     (simp_all add: mk_tree_fields namespace_errors_def rels_namespace_errors_def ns_masters_doc
        ns_rels_doc assms)

lemma sample_mk_master: "r \<noteq> [] \<Longrightarrow> sample_errors ((p, mk_master i n r) # ms) = []"
  by (simp add: sample_errors_def get_mk_master find_rel_mk_master Let_def)

lemma dangling_mk_master: "r \<noteq> [] \<Longrightarrow> dangling ids (mk_master i n r) = (r \<notin> ids)"
  by (simp add: dangling_def find_rel_mk_master rel_id_plain)

lemma ex_validate: "validate_vsdx_structure ex_tree = Inr ()"
  unfolding ex_tree_def ex_masters_def ex_rels_def
  by (rule validate_mk_tree)
     (simp_all add: ex_findall_masters [unfolded ex_masters_def] sample_mk_master integrity_errors_def
        rels_ids_of_def ex_findall_rels [unfolded ex_rels_def] get_mk_rel dangling_mk_master)

lemma ex_use_findall: "use_findall ex_page = [''A'']"
  by (simp add: ex_page_def use_match_def)

lemma ex_master_attr_findall: "master_attr_findall ex_page = [''2'']"
  by (simp add: ex_page_def master_attr_findall_def master_attr_match_def is_word_def is_digit_def is_quote_def)

lemma one_page_files: "get_page_files (one_page content) = [(''page1.xml'', PageFile (Text content))]"
  by (simp add: get_page_files_def pages_from_rels_def pages_from_glob_def one_page_def glob_match_def)

lemma used_in_one_page:
  "pages_dir t = Some (one_page content) \<Longrightarrow>
   used_in t mi = Inr (page_names (id_to_name_of mi) content)"
  by (simp add: used_in_def find_used_masters_def one_page_files read_xml_file_def)

lemma used_in_ex_page:
  "pages_dir t = Some (one_page ex_page) \<Longrightarrow>
   used_in t mi = Inr ({''A''} \<union> set (List.map_filter (map_of (id_to_name_of mi)) [''2'']))"
  by (simp add: used_in_one_page page_names_def ex_use_findall ex_master_attr_findall)

lemma ex_used: "used_in ex_tree (masters_info_of ex_masters) = Inr {''A'', ''B''}"
  by (auto simp add: used_in_ex_page ex_tree_def mk_tree_fields ex_masters_info id_to_name_of_def
      List.map_filter_def)

lemma card_used_unused: "finite A \<Longrightarrow> card (U \<inter> A) + card (A - U) = card A"
proof -
  assume fin: "finite A"
  have "card ((U \<inter> A) \<union> (A - U)) = card (U \<inter> A) + card (A - U)"
    by (rule card_Un_disjoint) (use fin in auto)
  moreover have "(U \<inter> A) \<union> (A - U) = A" by auto
  ultimately show ?thesis by simp
qed

lemma analyze_extracted_Inr:
  assumes "masters_xml t = Some (Doc xroot)" "validate_vsdx_structure t = Inr ()"
    "rels_path t = Some (Doc rr)" "used_in t (masters_info_of xroot) = Inr used"
  shows "analyze_extracted t =
     Inr \<lparr>total_masters = card (set (map fst (masters_info_of xroot))),
          used_masters = card (used \<inter> set (map fst (masters_info_of xroot))),
          unused_masters = card (set (map fst (masters_info_of xroot)) - used),
          used_names = sorted_list_of_set (used \<inter> set (map fst (masters_info_of xroot))),
          unused_names = sorted_list_of_set (set (map fst (masters_info_of xroot)) - used),
          potential_savings_mb = bytes_to_mb (int (calculate_unused_size
             (set (map fst (masters_info_of xroot)) - used) (masters_info_of xroot) (rels_info_of rr) t))\<rparr>"
  using assms by (simp add: analyze_extracted_def parse_masters_xml_def open_xml_def parse_rels_xml_def Let_def)

lemma ex_sorted_used: "sorted_list_of_set {''A'', ''B''} = [''A'', ''B'']" by code_simp
lemma ex_sorted_unused: "sorted_list_of_set {''C''} = [''C'']" by simp
lemma ex_savings: "bytes_to_mb 3000000 = 143 / 50" by code_simp

lemma plain_master3: "plain_name ''master3.xml'' = Some ''master3.xml''"
  by (simp add: plain_name_def target_parts_def)

lemma ex_analyze_extracted: "analyze_extracted ex_tree = Inr \<lparr>total_masters = 3, used_masters = 2, unused_masters = 1,
        used_names = [''A'', ''B''], unused_names = [''C''],
        potential_savings_mb = 143 / 50\<rparr>"
proof -
  have s1: "{''A'', ''B''} \<inter> {''A'', ''B'', ''C''} = {''A'', ''B''}" by auto
  have s3: "{''B'', ''A''} = {''A'', ''B''}" by auto
  have s2: "{''A'', ''B'', ''C''} - {''A'', ''B''} = {''C''}" by auto
  have 1: "masters_xml ex_tree = Some (Doc ex_masters)" "rels_path ex_tree = Some (Doc ex_rels)"
    by (simp_all add: ex_tree_def mk_tree_fields)
  have sz: "calculate_unused_size {''C''} (masters_info_of ex_masters) (rels_info_of ex_rels) ex_tree = 3000000"
    by (simp add: calculate_unused_size_def target_size_def ex_masters_info ex_rels_info ex_tree_def
        mk_tree_fields stat_target_def plain_master3 ex_entries_def)
  show ?thesis
    unfolding analyze_extracted_Inr [OF 1(1) ex_validate 1(2) ex_used]
    by (simp add: ex_masters_info s1 s2 s3 ex_sorted_used ex_savings sz [unfolded ex_masters_info, simplified])
qed

lemma locate_d: "locate [''/'', ''work''] [''d.vsdx''] = [''work'', ''d.vsdx'']"
  by (simp add: locate_def is_absolute_def from_root_def)

lemma disk_of_suffix: "lower (path_suffix [''d.vsdx'']) = ''.vsdx''"
  by (simp add: path_suffix_def path_name_def lower_def lower_char_def)

lemma disk_of_at: "file_at (disk_of t) [''d.vsdx''] = Some \<lparr>st_size = 5000, archive = Some t\<rparr>"
  by (simp add: disk_of_def file_at_def locate_d)

lemma validate_vsdx_path_Inr:
  "file_at d p = Some f \<Longrightarrow> lower (path_suffix p) = ''.vsdx'' \<Longrightarrow> validate_vsdx_path d p = Inr p"
  by (simp add: validate_vsdx_path_def)

lemma analyze_disk_of: "analyze_vsdx (disk_of t) [''d.vsdx''] = analyze_extracted t"
  by (simp add: analyze_vsdx_def validate_vsdx_path_Inr [OF disk_of_at disk_of_suffix] extractall_def disk_of_at)

subsection \<open>Conservation\<close>

text \<open>C3. Whenever the analysis of an archive returns a result, and so for every archive
  with a catalog that passes validation, the numbers of used and of unused masters add
  up to the total number of masters.\<close>

theorem analyze_conservation:
  "analyze_vsdx d p = Inr r \<Longrightarrow> used_masters r + unused_masters r = total_masters r"
  by (auto simp: analyze_vsdx_def analyze_extracted_def no_masters_def Let_def card_used_unused
      split: sum.splits option.splits prod.splits)

theorem analyze_conservation_witness:
  "analyze_vsdx (disk_of ex_tree) [''d.vsdx''] =
     Inr \<lparr>total_masters = 3, used_masters = 2, unused_masters = 1,
          used_names = [''A'', ''B''], unused_names = [''C''],
          potential_savings_mb = 143 / 50\<rparr>
   \<and> (2::nat) + 1 = 3"
  using analyze_conservation [of "disk_of ex_tree" "[''d.vsdx'']"]
  by (simp add: analyze_disk_of ex_analyze_extracted)

subsection \<open>Archives without a catalog\<close>



















subsection \<open>Referential integrity of the catalog\<close>














subsection \<open>Validation rejects malformed input\<close>

























subsection \<open>Idempotence of the analysis\<close>

















end
